theory Spec2Isabelle
  imports Complex_Main "HOL-Library.AList"
begin

section \<open>Python values, objects and exceptions\<close>

text \<open>
  The chatbot is a Python program. Its values are modelled as far as the functions below
  use them: immediate values, and references into a heap of mutable objects (string
  buffers, lists and dictionaries), so that two names bound to one list really share it.
  A dictionary is an association list in insertion order; \<open>AList.update\<close> overwrites the
  value of a key that is present and adds a new key at the end, as Python does.
\<close>

type_synonym addr = nat

datatype exc_class =
    SyntaxError | NameError | TypeError | AttributeError | ValueError | KeyError
  | IndexError | AssertionError | MemoryError | ValidationError
  | SystemExit | KeyboardInterrupt | GeneratorExit

text \<open>An exception object: its class and the text \<open>str(e)\<close> gives for it.\<close>

datatype py_exception = PyExc exc_class string

fun exc_class_of :: "py_exception \<Rightarrow> exc_class" where
  "exc_class_of (PyExc c m) = c"

fun str :: "py_exception \<Rightarrow> string" where
  "str (PyExc c m) = m"

text \<open>
  \<open>isinstance(e, Exception)\<close>: every class above derives from \<open>Exception\<close> but the three
  that derive from \<open>BaseException\<close> directly.
\<close>

fun is_Exception :: "py_exception \<Rightarrow> bool" where
  "is_Exception (PyExc SystemExit m) = False"
| "is_Exception (PyExc KeyboardInterrupt m) = False"
| "is_Exception (PyExc GeneratorExit m) = False"
| "is_Exception (PyExc c m) = True"

datatype pyval = PyNone | PyInt int | PyStr string | PyRef addr

text \<open>
  The objects: a text buffer (\<open>io.StringIO\<close>), a stream of the process (the terminal),
  either of them closed, a list and a dictionary.
\<close>

datatype pyobj =
    StringIO string
  | ClosedStringIO
  | TextIO string
  | ClosedTextIO
  | PyList "pyval list"
  | PyDict "(string \<times> pyval) list"

text \<open>
  The interpreter state: the heap (an object's address is its index), the two module
  attributes \<open>sys.stdout\<close> and \<open>sys.stderr\<close>, and the reference to the dictionary of the
  \<open>builtins\<close> module.
\<close>

record pystate =
  heap :: "pyobj list"
  sys_stdout :: pyval
  sys_stderr :: pyval
  builtins :: pyval

definition deref :: "pystate \<Rightarrow> addr \<Rightarrow> pyobj option" where
  "deref s a = (if a < length (heap s) then Some (heap s ! a) else None)"

definition store :: "addr \<Rightarrow> pyobj \<Rightarrow> pystate \<Rightarrow> pystate" where
  "store a obj s = s\<lparr>heap := (heap s)[a := obj]\<rparr>"

definition alloc :: "pyobj \<Rightarrow> pystate \<Rightarrow> addr \<times> pystate" where
  "alloc obj s = (length (heap s), s\<lparr>heap := heap s @ [obj]\<rparr>)"

definition sq :: "string \<Rightarrow> string" where
  "sq n = CHR 0x27 # n @ [CHR 0x27]"

fun type_name :: "pyobj option \<Rightarrow> string" where
  "type_name (Some (StringIO b)) = ''_io.StringIO''"
| "type_name (Some ClosedStringIO) = ''_io.StringIO''"
| "type_name (Some (TextIO b)) = ''_io.TextIOWrapper''"
| "type_name (Some ClosedTextIO) = ''_io.TextIOWrapper''"
| "type_name (Some (PyList xs)) = ''list''"
| "type_name (Some (PyDict kv)) = ''dict''"
| "type_name None = ''object''"

fun val_type_name :: "pystate \<Rightarrow> pyval \<Rightarrow> string" where
  "val_type_name s PyNone = ''NoneType''"
| "val_type_name s (PyInt i) = ''int''"
| "val_type_name s (PyStr t) = ''str''"
| "val_type_name s (PyRef a) = type_name (deref s a)"

definition no_attribute :: "pystate \<Rightarrow> pyval \<Rightarrow> string \<Rightarrow> py_exception" where
  "no_attribute s v attr =
     PyExc AttributeError (sq (val_type_name s v) @ '' object has no attribute '' @ sq attr)"

definition closed_file :: "pyobj \<Rightarrow> py_exception" where
  "closed_file obj =
     PyExc ValueError
       (case obj of
          ClosedTextIO \<Rightarrow> ''I/O operation on closed file.''
        | _ \<Rightarrow> ''I/O operation on closed file'')"

text \<open>
  \<open>repr\<close> of a string: in single quotes, or in double quotes when the string has a
  single quote and no double quote; the backslash, the quote in use and the control
  characters are escaped.
\<close>

definition hex2 :: "nat \<Rightarrow> string" where
  "hex2 n = [''0123456789abcdef'' ! (n div 16 mod 16), ''0123456789abcdef'' ! (n mod 16)]"

definition repr_char :: "char \<Rightarrow> char \<Rightarrow> string" where
  "repr_char q c =
     (if c = CHR 0x5C then [CHR 0x5C, CHR 0x5C]
      else if c = q then [CHR 0x5C, q]
      else if c = CHR 0x0A then [CHR 0x5C, CHR ''n'']
      else if c = CHR 0x0D then [CHR 0x5C, CHR ''r'']
      else if c = CHR 0x09 then [CHR 0x5C, CHR ''t'']
      else if (of_char c :: nat) < 32 \<or> (of_char c :: nat) = 127
           then [CHR 0x5C, CHR ''x''] @ hex2 (of_char c)
      else [c])"

definition py_repr :: "string \<Rightarrow> string" where
  "py_repr x =
     (let q = (if CHR 0x27 \<in> set x \<and> CHR 0x22 \<notin> set x then CHR 0x22 else CHR 0x27)
      in q # concat (map (repr_char q) x) @ [q])"

section \<open>The script sandbox: \<open>execute_code\<close>\<close>

text \<open>
  \<open>execute_code(script, context)\<close> runs a script with \<open>exec\<close>. The builtin \<open>exec\<close> is not
  part of the repository: \<open>execute_code\<close> takes it as the parameter \<open>exec\<close>, a function
  from the script, the globals dictionary and the interpreter state to the exception the
  script ends with, if any, and the state it leaves. Scripts that run forever are outside
  the model: \<open>exec\<close> always comes back.
\<close>

record script_result =
  stdout :: string
  stderr :: string

text \<open>\<open>context.copy()\<close>: a shallow copy, for the objects that have the method.\<close>

definition copy_method :: "pyval \<Rightarrow> pystate \<Rightarrow> (py_exception + pyval) \<times> pystate" where
  "copy_method v s =
     (case v of
        PyRef a \<Rightarrow>
          (case deref s a of
             Some (PyDict kv) \<Rightarrow> (let (b, s') = alloc (PyDict kv) s in (Inr (PyRef b), s'))
           | Some (PyList xs) \<Rightarrow> (let (b, s') = alloc (PyList xs) s in (Inr (PyRef b), s'))
           | _ \<Rightarrow> (Inl (no_attribute s v ''copy''), s))
      | _ \<Rightarrow> (Inl (no_attribute s v ''copy''), s))"

text \<open>\<open>stream.getvalue()\<close>: only a \<open>StringIO\<close> has it, and a closed one refuses.\<close>

definition getvalue :: "pyval \<Rightarrow> pystate \<Rightarrow> py_exception + string" where
  "getvalue v s =
     (case v of
        PyRef a \<Rightarrow>
          (case deref s a of
             Some (StringIO b) \<Rightarrow> Inr b
           | Some ClosedStringIO \<Rightarrow> Inl (closed_file ClosedStringIO)
           | _ \<Rightarrow> Inl (no_attribute s v ''getvalue''))
      | _ \<Rightarrow> Inl (no_attribute s v ''getvalue''))"

text \<open>The body of the \<open>try\<close> block: copy the context, run the script, read both buffers.\<close>

definition try_block ::
  "('script \<Rightarrow> pyval \<Rightarrow> pystate \<Rightarrow> py_exception option \<times> pystate) \<Rightarrow>
   'script \<Rightarrow> pyval \<Rightarrow> pystate \<Rightarrow> (py_exception + script_result) \<times> pystate" where
  "try_block exec script context s =
     (case copy_method context s of
        (Inl e, s1) \<Rightarrow> (Inl e, s1)
      | (Inr local_vars, s1) \<Rightarrow>
          (case exec script local_vars s1 of
             (Some e, s2) \<Rightarrow> (Inl e, s2)
           | (None, s2) \<Rightarrow>
               (case getvalue (sys_stdout s2) s2 of
                  Inl e \<Rightarrow> (Inl e, s2)
                | Inr stdout_output \<Rightarrow>
                    (case getvalue (sys_stderr s2) s2 of
                       Inl e \<Rightarrow> (Inl e, s2)
                     | Inr stderr_output \<Rightarrow>
                         (Inr \<lparr>stdout = stdout_output, stderr = stderr_output\<rparr>, s2)))))"

text \<open>
  The whole function: \<open>default_context\<close> is the \<open>if context is None\<close> of its first lines,
  \<open>redirect\<close> puts a new \<open>StringIO\<close> in each stream. \<open>Inl e\<close> is an exception that
  leaves \<open>execute_code\<close>: the handler is \<open>except Exception\<close>, so it takes the exceptions
  that are instances of \<open>Exception\<close> and lets the others pass. The \<open>finally\<close> clause runs
  on every path.
\<close>

definition default_context :: "pyval \<Rightarrow> pystate \<Rightarrow> pyval \<times> pystate" where
  "default_context context s =
     (if context = PyNone
      then (let (a, s') = alloc (PyDict []) s in (PyRef a, s'))
      else (context, s))"

definition redirect :: "pystate \<Rightarrow> pystate" where
  "redirect s =
     (let (out, s1) = alloc (StringIO []) s;
          s2 = s1\<lparr>sys_stdout := PyRef out\<rparr>;
          (err, s3) = alloc (StringIO []) s2
      in s3\<lparr>sys_stderr := PyRef err\<rparr>)"

definition execute_code ::
  "('script \<Rightarrow> pyval \<Rightarrow> pystate \<Rightarrow> py_exception option \<times> pystate) \<Rightarrow>
   'script \<Rightarrow> pyval \<Rightarrow> pystate \<Rightarrow> (py_exception + script_result) \<times> pystate" where
  "execute_code exec script context s0 =
     (let (context', s1) = default_context context s0;
          original_stdout = sys_stdout s1;
          original_stderr = sys_stderr s1;
          s2 = redirect s1;
          (r, s3) = try_block exec script context' s2;
          r' = (case r of
                  Inr res \<Rightarrow> Inr res
                | Inl e \<Rightarrow>
                    if is_Exception e then Inr \<lparr>stdout = [], stderr = str e\<rparr> else Inl e)
      in (r', s3\<lparr>sys_stdout := original_stdout, sys_stderr := original_stderr\<rparr>))"


subsection \<open>What a script does\<close>

text \<open>
  A script is represented by the sequence of effects its statements have, in the order
  they run:
  \<^item> printing text (\<open>print(text, end='')\<close>, which writes to \<open>sys.stdout\<close> and does nothing
    when that is \<open>None\<close>) and writing text to \<open>sys.stderr\<close> (\<open>sys.stderr.write(text)\<close>);
  \<^item> binding a name (\<open>name = value\<close>), where the value may be a reference to any object;
  \<^item> changing an object in place: \<open>name.append(value)\<close> on a list and
    \<open>name[key] = value\<close> on a dictionary;
  \<^item> binding \<open>sys.stdout\<close> or \<open>sys.stderr\<close> to another value, and closing the stream
    bound to either (\<open>sys.stdout.close()\<close>);
  \<^item> raising an exception.

  \<open>exec\<close> compiles the text before it runs any of it: a script with a syntax error is
  the script whose first effect raises \<open>SyntaxError\<close>. A name is looked up among the
  globals of the script; the names the builtins define are not modelled. Scripts are
  finite sequences of these effects.
\<close>

datatype action =
    Print string
  | PrintErr string
  | Assign string pyval
  | Append string pyval
  | SetItem string string pyval
  | SetStdout pyval
  | SetStderr pyval
  | CloseStdout
  | CloseStderr
  | Raise py_exception

type_synonym script = "action list"

text \<open>\<open>stream.write(text)\<close>, for the two kinds of stream.\<close>

definition stream_write :: "pyval \<Rightarrow> string \<Rightarrow> pystate \<Rightarrow> py_exception option \<times> pystate" where
  "stream_write v txt s =
     (case v of
        PyRef a \<Rightarrow>
          (case deref s a of
             Some (StringIO b) \<Rightarrow> (None, store a (StringIO (b @ txt)) s)
           | Some (TextIO b) \<Rightarrow> (None, store a (TextIO (b @ txt)) s)
           | Some ClosedStringIO \<Rightarrow> (Some (closed_file ClosedStringIO), s)
           | Some ClosedTextIO \<Rightarrow> (Some (closed_file ClosedTextIO), s)
           | _ \<Rightarrow> (Some (no_attribute s v ''write''), s))
      | _ \<Rightarrow> (Some (no_attribute s v ''write''), s))"

text \<open>\<open>stream.close()\<close>; closing a closed stream does nothing.\<close>

definition stream_close :: "pyval \<Rightarrow> pystate \<Rightarrow> py_exception option \<times> pystate" where
  "stream_close v s =
     (case v of
        PyRef a \<Rightarrow>
          (case deref s a of
             Some (StringIO b) \<Rightarrow> (None, store a ClosedStringIO s)
           | Some (TextIO b) \<Rightarrow> (None, store a ClosedTextIO s)
           | Some ClosedStringIO \<Rightarrow> (None, s)
           | Some ClosedTextIO \<Rightarrow> (None, s)
           | _ \<Rightarrow> (Some (no_attribute s v ''close''), s))
      | _ \<Rightarrow> (Some (no_attribute s v ''close''), s))"

definition globals_must_be_dict :: "pystate \<Rightarrow> pyval \<Rightarrow> py_exception" where
  "globals_must_be_dict s v =
     PyExc TypeError (''exec() globals must be a dict, not '' @ val_type_name s v)"

definition name_error :: "string \<Rightarrow> py_exception" where
  "name_error n = PyExc NameError (''name '' @ sq n @ '' is not defined'')"

definition no_item_assignment :: "pystate \<Rightarrow> pyval \<Rightarrow> py_exception" where
  "no_item_assignment s v =
     PyExc TypeError
       (if val_type_name s v = ''list''
        then ''list indices must be integers or slices, not str''
        else sq (val_type_name s v) @ '' object does not support item assignment'')"

fun step :: "addr \<Rightarrow> action \<Rightarrow> pystate \<Rightarrow> py_exception option \<times> pystate" where
  "step g (Print txt) s =
     (if sys_stdout s = PyNone then (None, s) else stream_write (sys_stdout s) txt s)"
| "step g (PrintErr txt) s = stream_write (sys_stderr s) txt s"
| "step g (Assign n v) s =
     (case deref s g of
        Some (PyDict kv) \<Rightarrow> (None, store g (PyDict (AList.update n v kv)) s)
      | _ \<Rightarrow> (Some (globals_must_be_dict s (PyRef g)), s))"
| "step g (Append n v) s =
     (case deref s g of
        Some (PyDict kv) \<Rightarrow>
          (case map_of kv n of
             None \<Rightarrow> (Some (name_error n), s)
           | Some (PyRef a) \<Rightarrow>
               (case deref s a of
                  Some (PyList xs) \<Rightarrow> (None, store a (PyList (xs @ [v])) s)
                | _ \<Rightarrow> (Some (no_attribute s (PyRef a) ''append''), s))
           | Some w \<Rightarrow> (Some (no_attribute s w ''append''), s))
      | _ \<Rightarrow> (Some (globals_must_be_dict s (PyRef g)), s))"
| "step g (SetItem n k v) s =
     (case deref s g of
        Some (PyDict kv) \<Rightarrow>
          (case map_of kv n of
             None \<Rightarrow> (Some (name_error n), s)
           | Some (PyRef a) \<Rightarrow>
               (case deref s a of
                  Some (PyDict items) \<Rightarrow> (None, store a (PyDict (AList.update k v items)) s)
                | _ \<Rightarrow> (Some (no_item_assignment s (PyRef a)), s))
           | Some w \<Rightarrow> (Some (no_item_assignment s w), s))
      | _ \<Rightarrow> (Some (globals_must_be_dict s (PyRef g)), s))"
| "step g (SetStdout v) s = (None, s\<lparr>sys_stdout := v\<rparr>)"
| "step g (SetStderr v) s = (None, s\<lparr>sys_stderr := v\<rparr>)"
| "step g CloseStdout s = stream_close (sys_stdout s) s"
| "step g CloseStderr s = stream_close (sys_stderr s) s"
| "step g (Raise e) s = (Some e, s)"

fun run :: "addr \<Rightarrow> script \<Rightarrow> pystate \<Rightarrow> py_exception option \<times> pystate" where
  "run g [] s = (None, s)"
| "run g (a # as) s =
     (case step g a s of
        (Some e, s') \<Rightarrow> (Some e, s')
      | (None, s') \<Rightarrow> run g as s')"

text \<open>
  \<open>exec(script, globals)\<close>: the globals must be a dictionary; \<open>exec\<close> puts the key
  \<open>__builtins__\<close>, with the reference to the builtins, into it when it has none, then
  runs the script.
\<close>

definition with_builtins :: "pyval \<Rightarrow> (string \<times> pyval) list \<Rightarrow> (string \<times> pyval) list" where
  "with_builtins b kv =
     (case map_of kv ''__builtins__'' of
        None \<Rightarrow> AList.update ''__builtins__'' b kv
      | Some b' \<Rightarrow> kv)"

definition exec_py :: "script \<Rightarrow> pyval \<Rightarrow> pystate \<Rightarrow> py_exception option \<times> pystate" where
  "exec_py script globals s =
     (case globals of
        PyRef g \<Rightarrow>
          (case deref s g of
             Some (PyDict kv) \<Rightarrow>
               run g script (store g (PyDict (with_builtins (builtins s) kv)) s)
           | _ \<Rightarrow> (Some (globals_must_be_dict s globals), s))
      | _ \<Rightarrow> (Some (globals_must_be_dict s globals), s))"





section \<open>The knowledge-base registry: \<open>load_knowledge_base\<close>\<close>

record document =
  page_content :: string
  metadata :: "(string \<times> string) list"

text \<open>
  A FAISS vector store as far as the program reads it: the name of its index and the
  dictionary \<open>docstore._dict\<close> from document ids to documents. \<open>len\<close> of a dictionary is
  the number of its keys.
\<close>

record docs_store =
  index_name :: string
  docstore_dict :: "(string \<times> document) list"

definition dict_len :: "('k \<times> 'v) list \<Rightarrow> nat" where
  "dict_len kv = length (remdups (map fst kv))"

text \<open>An entry of \<open>MANIFEST['collections']\<close>.\<close>

record collection =
  c_id :: string
  c_name :: string
  c_description :: string
  c_base_url :: "string option"

text \<open>
  \<open>load_docs_store\<close> calls \<open>FAISS.load_local\<close>, a library function, taken as the parameter
  \<open>load_local\<close> (index name, folder): it gives a store or raises.
\<close>

definition load_docs_store ::
  "(string \<Rightarrow> string \<Rightarrow> py_exception + docs_store) \<Rightarrow> string \<Rightarrow> string \<Rightarrow>
   py_exception + docs_store" where
  "load_docs_store load_local db_path collection_name = load_local collection_name db_path"

text \<open>
  The dictionary comprehension \<open>{channel: load_docs_store(DB_PATH, channel) for ...}\<close>,
  from left to right; the first exception ends it.
\<close>

fun load_all ::
  "(string \<Rightarrow> string \<Rightarrow> py_exception + docs_store) \<Rightarrow> string \<Rightarrow> string list \<Rightarrow>
   (string \<times> docs_store) list \<Rightarrow> py_exception + (string \<times> docs_store) list" where
  "load_all load_local db_path [] d = Inr d"
| "load_all load_local db_path (channel # channels) d =
     (case load_docs_store load_local db_path channel of
        Inl e \<Rightarrow> Inl e
      | Inr docs_store \<Rightarrow>
          load_all load_local db_path channels (AList.update channel docs_store d))"

text \<open>
  The loop over \<open>docs_store_dict.items()\<close> with its \<open>assert length > 0\<close>. The interpreter
  runs in its default mode, in which \<open>assert\<close> statements are executed.
\<close>

fun assert_not_empty :: "(string \<times> docs_store) list \<Rightarrow> py_exception option" where
  "assert_not_empty [] = None"
| "assert_not_empty ((name, docs_store) # items) =
     (if 0 < dict_len (docstore_dict docs_store) then assert_not_empty items
      else Some (PyExc AssertionError
                  (''Please make sure the docs store '' @ name @ '' is not empty.'')))"

definition load_knowledge_base ::
  "(string \<Rightarrow> string \<Rightarrow> py_exception + docs_store) \<Rightarrow> string \<Rightarrow> collection list \<Rightarrow>
   py_exception + (string \<times> docs_store) list" where
  "load_knowledge_base load_local db_path manifest_collections =
     (let channel_ids = map c_id manifest_collections in
      case load_all load_local db_path channel_ids [] of
        Inl e \<Rightarrow> Inl e
      | Inr docs_store_dict \<Rightarrow>
          (case assert_not_empty docs_store_dict of
             Some e \<Rightarrow> Inl e
           | None \<Rightarrow> Inr docs_store_dict))"

section \<open>The router: \<open>respond_to_user\<close>\<close>

record UserProfile =
  name :: string
  occupation :: string
  background :: string

type_synonym chat_message = "(string \<times> string) list"

record QuestionWithHistory =
  question :: string
  chat_history :: "chat_message list option"
  user_profile :: "UserProfile option"
  channel_id :: "string option"

text \<open>
  The three answers of the first language-model call: \<open>DirectResponse(response)\<close>,
  \<open>DocumentRetrievalInput(query, request, user_info, database_id)\<close> and
  \<open>ModelZooInfoScript(script, request, user_info)\<close>.
\<close>

datatype req =
    DirectResponse string
  | DocumentRetrievalInput string string string string
  | ModelZooInfoScript script string string

text \<open>
  What \<open>role.aask\<close> is given: the list made of the profile, the history and the question;
  \<open>DocumentSearchInput(user_question, relevant_context, user_info)\<close>;
  \<open>ModelZooInfoScriptResults(stdout, stderr, request, user_info)\<close>.
\<close>

datatype aask_input =
    Inputs "UserProfile option" "chat_message list" string
  | DocumentSearchInput string "string list" string
  | ModelZooInfoScriptResults string string string string

text \<open>
  The language model is outside the program. \<open>aask_req\<close> is \<open>role.aask\<close> asked for one of
  the three answers, \<open>aask_final\<close> is \<open>role.aask\<close> asked for a \<open>FinalResponse\<close>, read at
  its \<open>response\<close> field; either may raise.
\<close>

record role =
  aask_req :: "aask_input \<Rightarrow> py_exception + req"
  aask_final :: "aask_input \<Rightarrow> py_exception + string"

text \<open>
  The calls a request makes on its collaborators are recorded, in order, next to the
  interpreter state the script branch works on. The \<open>print\<close> statements of the functions
  below report progress on the process's own stream and are left out, but for the one of
  \<open>run_extension\<close> that reads the list of documents.
\<close>

datatype event =
    AaskCall aask_input
  | RegistryLookup string
  | SearchCall docs_store string nat
  | ScriptRun script

record world =
  calls :: "event list"
  interp :: pystate

definition record_call :: "event \<Rightarrow> world \<Rightarrow> world" where
  "record_call ev w = w\<lparr>calls := calls w @ [ev]\<rparr>"

text \<open>\<open>a or b\<close> on an optional string: \<open>None\<close> and the empty string are false.\<close>

definition py_or :: "string option \<Rightarrow> string \<Rightarrow> string" where
  "py_or a b = (case a of None \<Rightarrow> b | Some x \<Rightarrow> if x = [] then b else x)"

definition respond_to_user ::
  "role \<Rightarrow> (docs_store \<Rightarrow> string \<Rightarrow> nat \<Rightarrow> py_exception + document list) \<Rightarrow>
   (string \<times> docs_store) list \<Rightarrow> pyval \<Rightarrow> QuestionWithHistory \<Rightarrow> world \<Rightarrow>
   (py_exception + string) \<times> world" where
  "respond_to_user role asimilarity_search docs_store_dict resource_items
       question_with_history w0 =
     (case chat_history question_with_history of
        None \<Rightarrow> (Inl (PyExc TypeError (sq ''NoneType'' @ '' object is not iterable'')), w0)
      | Some history \<Rightarrow>
          (let inputs = Inputs (user_profile question_with_history) history
                               (question question_with_history);
               w1 = record_call (AaskCall inputs) w0
           in case aask_req role inputs of
                Inl e \<Rightarrow> (Inl e, w1)
              | Inr (DirectResponse response) \<Rightarrow> (Inr response, w1)
              | Inr (DocumentRetrievalInput query request user_info database_id) \<Rightarrow>
                  (let selected_channel =
                         py_or (channel_id question_with_history) database_id;
                       w2 = record_call (RegistryLookup selected_channel) w1
                   in case map_of docs_store_dict selected_channel of
                        None \<Rightarrow> (Inl (PyExc KeyError (py_repr selected_channel)), w2)
                      | Some docs_store \<Rightarrow>
                          (let w3 = record_call (SearchCall docs_store query 3) w2
                           in case asimilarity_search docs_store query 3 of
                                Inl e \<Rightarrow> (Inl e, w3)
                              | Inr relevant_docs \<Rightarrow>
                                  (let raw_docs = map page_content relevant_docs;
                                       search_input =
                                         DocumentSearchInput request raw_docs user_info;
                                       w4 = record_call (AaskCall search_input) w3
                                   in case aask_final role search_input of
                                        Inl e \<Rightarrow> (Inl e, w4)
                                      | Inr response \<Rightarrow> (Inr response, w4))))
              | Inr (ModelZooInfoScript script request user_info) \<Rightarrow>
                  (let (context, p1) =
                         alloc (PyDict [(''resources'', resource_items)]) (interp w1);
                       w2 = record_call (ScriptRun script) w1;
                       (r, p2) = execute_code exec_py script (PyRef context) p1;
                       w3 = w2\<lparr>interp := p2\<rparr>
                   in case r of
                        Inl e \<Rightarrow> (Inl e, w3)
                      | Inr result \<Rightarrow>
                          (let results =
                                 ModelZooInfoScriptResults (stdout result) (stderr result)
                                   request user_info;
                               w4 = record_call (AaskCall results) w3
                           in case aask_final role results of
                                Inl e \<Rightarrow> (Inl e, w4)
                              | Inr response \<Rightarrow> (Inr response, w4)))))"

section \<open>The service: \<open>chat\<close>\<close>

text \<open>\<open>{collection['name']: collection['id'] for collection in ...}\<close>\<close>

definition channel_id_by_name :: "collection list \<Rightarrow> (string \<times> string) list" where
  "channel_id_by_name manifest_collections =
     fold (\<lambda>collection d. AList.update (c_name collection) (c_id collection) d)
       manifest_collections []"

fun join :: "string \<Rightarrow> string list \<Rightarrow> string" where
  "join sep [] = []"
| "join sep [x] = x"
| "join sep (x # y # xs) = x @ sep @ join sep (y # xs)"

text \<open>\<open>str\<close> of a list of strings, as the f-string of the assertion prints it.\<close>

definition str_list :: "string list \<Rightarrow> string" where
  "str_list xs = ''['' @ join '', '' (map py_repr xs) @ '']''"

text \<open>
  The first lines of \<open>chat\<close>: a channel name that is given (not \<open>None\<close>, not empty) must
  be a key of \<open>channel_id_by_name\<close>.
\<close>

definition lookup_channel ::
  "(string \<times> string) list \<Rightarrow> string option \<Rightarrow> py_exception + string option" where
  "lookup_channel by_name channel =
     (case channel of
        None \<Rightarrow> Inr None
      | Some c \<Rightarrow>
          if c = [] then Inr None
          else (case map_of by_name c of
                  None \<Rightarrow>
                    Inl (PyExc AssertionError
                          (''Channel '' @ c @ '' is not found, available channels are '' @
                           str_list (map fst by_name)))
                | Some i \<Rightarrow> Inr (Some i)))"

text \<open>
  \<open>UserProfile.parse_obj(obj)\<close> is pydantic's: an object that is not a dictionary (here:
  \<open>None\<close>) is a \<open>ValidationError\<close>, and so is a dictionary that lacks a field or breaks a
  \<open>max_length\<close>. The fields are checked in the order of the class. The text carried by
  the exception is the \<open>msg\<close> of the first entry of \<open>e.errors()\<close>, not the whole of
  \<open>str(e)\<close>, which sets it in a report of several lines.
\<close>

definition check_field ::
  "(string \<times> string) list \<Rightarrow> string \<Rightarrow> nat \<Rightarrow> string \<Rightarrow> py_exception + string" where
  "check_field d field max_length limit =
     (case map_of d field of
        None \<Rightarrow> Inl (PyExc ValidationError ''field required'')
      | Some v \<Rightarrow>
          if length v \<le> max_length then Inr v
          else Inl (PyExc ValidationError
                     (''ensure this value has at most '' @ limit @ '' characters'')))"

definition parse_obj :: "(string \<times> string) list option \<Rightarrow> py_exception + UserProfile" where
  "parse_obj obj =
     (case obj of
        None \<Rightarrow> Inl (PyExc ValidationError ''UserProfile expected dict not NoneType'')
      | Some d \<Rightarrow>
          (case check_field d ''name'' 32 ''32'' of
             Inl e \<Rightarrow> Inl e
           | Inr n \<Rightarrow>
               (case check_field d ''occupation'' 128 ''128'' of
                  Inl e \<Rightarrow> Inl e
                | Inr oc \<Rightarrow>
                    (case check_field d ''background'' 256 ''256'' of
                       Inl e \<Rightarrow> Inl e
                     | Inr b \<Rightarrow> Inr \<lparr>name = n, occupation = oc, background = b\<rparr>))))"

text \<open>
  \<open>customer_service.handle(message)\<close> is the agent framework's. The role has one action,
  \<open>respond_to_user\<close>; \<open>handle\<close> runs it and returns the messages made of its responses,
  and a response that is false (the empty string) makes no message.
\<close>

definition handle ::
  "role \<Rightarrow> (docs_store \<Rightarrow> string \<Rightarrow> nat \<Rightarrow> py_exception + document list) \<Rightarrow>
   (string \<times> docs_store) list \<Rightarrow> pyval \<Rightarrow> QuestionWithHistory \<Rightarrow> world \<Rightarrow>
   (py_exception + string list) \<times> world" where
  "handle customer_service asimilarity_search docs_store_dict resource_items m w =
     (case respond_to_user customer_service asimilarity_search docs_store_dict
             resource_items m w of
        (Inl e, w') \<Rightarrow> (Inl e, w')
      | (Inr response, w') \<Rightarrow> (Inr (if response = [] then [] else [response]), w'))"

text \<open>
  \<open>chat(text, chat_history, user_profile=None, channel=None)\<close>; it returns
  \<open>response[-1].content\<close>, the content of the last message of \<open>handle\<close>.
\<close>

definition chat ::
  "role \<Rightarrow> (docs_store \<Rightarrow> string \<Rightarrow> nat \<Rightarrow> py_exception + document list) \<Rightarrow>
   (string \<times> docs_store) list \<Rightarrow> pyval \<Rightarrow> collection list \<Rightarrow>
   string \<Rightarrow> chat_message list option \<Rightarrow> (string \<times> string) list option \<Rightarrow> string option \<Rightarrow>
   world \<Rightarrow> (py_exception + string) \<times> world" where
  "chat customer_service asimilarity_search docs_store_dict resource_items
       manifest_collections text history profile channel w =
     (case lookup_channel (channel_id_by_name manifest_collections) channel of
        Inl e \<Rightarrow> (Inl e, w)
      | Inr cid \<Rightarrow>
          (case parse_obj profile of
             Inl e \<Rightarrow> (Inl e, w)
           | Inr p \<Rightarrow>
               (let m = \<lparr>question = text, chat_history = history,
                          user_profile = Some p, channel_id = cid\<rparr>
                in case handle customer_service asimilarity_search docs_store_dict
                          resource_items m w of
                     (Inl e, w') \<Rightarrow> (Inl e, w')
                   | (Inr response, w') \<Rightarrow>
                       (if response = []
                        then (Inl (PyExc IndexError ''list index out of range''), w')
                        else (Inr (last response), w')))))"

section \<open>The documentation extension: \<open>run_extension\<close>\<close>

record DocWithScore =
  doc :: string
  score :: real
  doc_metadata :: "(string \<times> string) list"
  base_url :: "string option"

text \<open>The request of the extension; \<open>run_extension\<close> reads its \<open>query\<close>.\<close>

record retrieval_input =
  request :: string
  preliminary_response :: string
  query :: string
  user_info :: string

text \<open>\<open>xs[i]\<close> for an index that is not negative.\<close>

definition py_index :: "'a list \<Rightarrow> nat \<Rightarrow> py_exception + 'a" where
  "py_index xs i =
     (if i < length xs then Inr (xs ! i) else Inl (PyExc IndexError ''list index out of range''))"

text \<open>
  \<open>run_extension(channel_id, req)\<close>. The manifest and the registry come from modules
  that are not part of the sources at hand, and the similarity search is the vector
  store's: all three are parameters. The second \<open>print\<close> formats the first three
  documents, so it reads \<open>docs_with_score[0]\<close>, \<open>[1]\<close> and \<open>[2]\<close> before the function
  returns.
\<close>

definition run_extension ::
  "(docs_store \<Rightarrow> string \<Rightarrow> nat \<Rightarrow> py_exception + (document \<times> real) list) \<Rightarrow>
   collection list \<Rightarrow> (string \<times> docs_store) list \<Rightarrow> string \<Rightarrow> retrieval_input \<Rightarrow>
   py_exception + DocWithScore list" where
  "run_extension asimilarity_search_with_relevance_scores collections docs_store_dict
       channel req =
     (case map_of docs_store_dict channel of
        None \<Rightarrow> Inl (PyExc KeyError (py_repr channel))
      | Some docs_store \<Rightarrow>
          (let collection_info_dict =
                 fold (\<lambda>collection d. AList.update (c_id collection) collection d)
                   collections []
           in case map_of collection_info_dict channel of
                None \<Rightarrow> Inl (PyExc KeyError (py_repr channel))
              | Some collection_info \<Rightarrow>
                  (case asimilarity_search_with_relevance_scores docs_store (query req) 3 of
                     Inl e \<Rightarrow> Inl e
                   | Inr results_with_scores \<Rightarrow>
                       (let docs_with_score =
                              map (\<lambda>(d, sc).
                                     \<lparr>doc = page_content d, score = sc,
                                      doc_metadata = metadata d,
                                      base_url = c_base_url collection_info\<rparr>)
                                results_with_scores
                        in case py_index docs_with_score 0 of
                             Inl e \<Rightarrow> Inl e
                           | Inr d0 \<Rightarrow>
                               (case py_index docs_with_score 1 of
                                  Inl e \<Rightarrow> Inl e
                                | Inr d1 \<Rightarrow>
                                    (case py_index docs_with_score 2 of
                                       Inl e \<Rightarrow> Inl e
                                     | Inr d2 \<Rightarrow> Inr docs_with_score))))))"

section \<open>Startup: \<open>start_server\<close>\<close>

text \<open>
  \<open>create_customer_service\<close> begins with \<open>load_knowledge_base()\<close>. What it does with the
  registry afterwards (loading the resource catalog, building the role) is the parameter
  \<open>build_role\<close>. \<open>start_server\<close> logs in, connects, builds the customer service and then
  registers the two services; \<open>login\<close>, \<open>connect_to_server\<close> and \<open>register_service\<close> belong
  to the RPC library and are parameters. The calls made on the server are recorded.
\<close>

datatype server_event = LoginCall | ConnectCall | RegisterService string

definition create_customer_service ::
  "(string \<Rightarrow> string \<Rightarrow> py_exception + docs_store) \<Rightarrow> string \<Rightarrow> collection list \<Rightarrow>
   ((string \<times> docs_store) list \<Rightarrow> py_exception + 'service) \<Rightarrow> py_exception + 'service" where
  "create_customer_service load_local db_path manifest_collections build_role =
     (case load_knowledge_base load_local db_path manifest_collections of
        Inl e \<Rightarrow> Inl e
      | Inr docs_store_dict \<Rightarrow> build_role docs_store_dict)"

definition start_server ::
  "(py_exception + 'token) \<Rightarrow> ('token \<Rightarrow> py_exception + 'server) \<Rightarrow>
   ('server \<Rightarrow> string \<Rightarrow> py_exception option) \<Rightarrow>
   (string \<Rightarrow> string \<Rightarrow> py_exception + docs_store) \<Rightarrow> string \<Rightarrow> collection list \<Rightarrow>
   ((string \<times> docs_store) list \<Rightarrow> py_exception + 'service) \<Rightarrow>
   py_exception option \<times> server_event list" where
  "start_server login connect_to_server register_service load_local db_path
       manifest_collections build_role =
     (case login of
        Inl e \<Rightarrow> (Some e, [LoginCall])
      | Inr token \<Rightarrow>
          (case connect_to_server token of
             Inl e \<Rightarrow> (Some e, [LoginCall, ConnectCall])
           | Inr server \<Rightarrow>
               (case create_customer_service load_local db_path manifest_collections
                       build_role of
                  Inl e \<Rightarrow> (Some e, [LoginCall, ConnectCall])
                | Inr customer_service \<Rightarrow>
                    (case register_service server ''hypha-bot'' of
                       Some e \<Rightarrow>
                         (Some e, [LoginCall, ConnectCall, RegisterService ''hypha-bot''])
                     | None \<Rightarrow>
                         (register_service server ''hypha-bot-client'',
                          [LoginCall, ConnectCall, RegisterService ''hypha-bot'',
                           RegisterService ''hypha-bot-client''])))))"

section \<open>States and invariants used below\<close>

text \<open>
  A process as it starts: its two terminal streams and the dictionary of the builtins,
  whose entries are left out. And a process that has loaded the resource catalog (one
  list, at address 2) and made the bindings \<open>{"resources": ...}\<close> for a script (at
  address 3).
\<close>

definition process_start :: pystate where
  "process_start =
     \<lparr>heap = [TextIO [], TextIO [], PyDict []],
      sys_stdout = PyRef 0, sys_stderr = PyRef 1, builtins = PyRef 2\<rparr>"

definition catalog_state :: pystate where
  "catalog_state =
     \<lparr>heap = [TextIO [], TextIO [], PyList [PyStr ''model-a''],
              PyDict [(''resources'', PyRef 2)], PyDict []],
      sys_stdout = PyRef 0, sys_stderr = PyRef 1, builtins = PyRef 4\<rparr>"



text \<open>
  A manifest with two collections, a registry for it, a role whose first answer is fixed,
  and searches over a fixed ranking, for the examples.
\<close>

definition bioimage_manifest :: "collection list" where
  "bioimage_manifest =
     [\<lparr>c_id = ''bioimage.io'', c_name = ''BioImage.IO'', c_description = ''Model zoo docs'',
       c_base_url = Some ''https://bioimage.io/docs''\<rparr>,
      \<lparr>c_id = ''scikit-image'', c_name = ''scikit-image'', c_description = ''Image processing'',
       c_base_url = None\<rparr>]"

definition one_doc_store :: "string \<Rightarrow> docs_store" where
  "one_doc_store n = \<lparr>index_name = n,
     docstore_dict = [(''0'', \<lparr>page_content = ''About '' @ n, metadata = []\<rparr>)]\<rparr>"

definition two_channels :: "(string \<times> docs_store) list" where
  "two_channels = [(''bioimage.io'', one_doc_store ''bioimage.io''),
                   (''scikit-image'', one_doc_store ''scikit-image'')]"

definition canned_role :: "req \<Rightarrow> role" where
  "canned_role answer = \<lparr>aask_req = (\<lambda>i. Inr answer), aask_final = (\<lambda>i. Inr ''final answer'')\<rparr>"

definition stored_search :: "docs_store \<Rightarrow> string \<Rightarrow> nat \<Rightarrow> py_exception + document list" where
  "stored_search st q k = Inr (take k (map snd (docstore_dict st)))"


definition short_search ::
  "docs_store \<Rightarrow> string \<Rightarrow> nat \<Rightarrow> py_exception + (document \<times> real) list" where
  "short_search docs_store q k =
     Inr (take k [(\<lparr>page_content = ''Napari is a viewer'', metadata = []\<rparr>, 0.9),
                  (\<lparr>page_content = ''Install with pip'', metadata = []\<rparr>, 0.5)])"

definition idle :: world where
  "idle = \<lparr>calls = [], interp = process_start\<rparr>"

definition stocked_loader :: "string \<Rightarrow> string \<Rightarrow> py_exception + docs_store" where
  "stocked_loader collection_name db_path = Inr (one_doc_store collection_name)"

definition hollow_loader :: "string \<Rightarrow> string \<Rightarrow> py_exception + docs_store" where
  "hollow_loader collection_name db_path =
     (if collection_name = ''scikit-image''
      then Inr \<lparr>index_name = collection_name, docstore_dict = []\<rparr>
      else Inr (one_doc_store collection_name))"

section \<open>Properties of the sandbox\<close>










lemma deref_append:
  "deref (s\<lparr>heap := heap s @ xs\<rparr>) a =
     (if a < length (heap s) then deref s a
      else if a < length (heap s) + length xs then Some (xs ! (a - length (heap s))) else None)"
  by (simp add: deref_def nth_append)











subsection \<open>The claims about \<open>execute_code\<close>\<close>

text \<open>
  C9. \<open>execute_code\<close> restores the process's streams: whatever \<open>exec\<close> does with the
  script and the interpreter state, and whether \<open>execute_code\<close> returns a result or lets
  an exception pass, \<open>sys.stdout\<close> and \<open>sys.stderr\<close> are afterwards the values they were
  before the call.
\<close>

theorem execute_code_restores_streams:
  "sys_stdout (snd (execute_code exec script context s)) = sys_stdout s \<and>
   sys_stderr (snd (execute_code exec script context s)) = sys_stderr s"
  by (simp add: execute_code_def default_context_def alloc_def Let_def split: prod.splits)

theorem execute_code_restores_streams_witness:
  "sys_stdout (snd (execute_code exec_py [Print ''a'', Raise (PyExc SystemExit ''1'')]
                      PyNone process_start)) = PyRef 0 \<and>
   sys_stderr (snd (execute_code exec_py [Print ''a'', Raise (PyExc SystemExit ''1'')]
                      PyNone process_start)) = PyRef 1"
  using execute_code_restores_streams
          [of exec_py "[Print ''a'', Raise (PyExc SystemExit ''1'')]" PyNone process_start]
  by (simp add: process_start_def)







text \<open>
  C3. The bindings are copied with \<open>context.copy()\<close>, "to avoid modifying the original",
  and the copy is shallow. A script that binds \<open>resources\<close> anew leaves the caller's
  dictionary as it was; a script that runs \<open>resources.append("junk")\<close> ends without a
  fault and has changed the caller's list, the shared resource catalog.
\<close>

theorem execute_code_mutates_shared_resources:
  "deref catalog_state 2 = Some (PyList [PyStr ''model-a'']) \<and>
   deref (snd (execute_code exec_py [Assign ''resources'' PyNone] (PyRef 3) catalog_state)) 3 =
     Some (PyDict [(''resources'', PyRef 2)]) \<and>
   fst (execute_code exec_py [Append ''resources'' (PyStr ''junk'')] (PyRef 3) catalog_state) =
     Inr \<lparr>stdout = [], stderr = []\<rparr> \<and>
   deref (snd (execute_code exec_py [Append ''resources'' (PyStr ''junk'')]
                 (PyRef 3) catalog_state)) 2 =
     Some (PyList [PyStr ''model-a'', PyStr ''junk''])"
  by code_simp

section \<open>Properties of the router\<close>

text \<open>
  C5. When the first call of the language model answers with a \<open>DirectResponse\<close>,
  \<open>respond_to_user\<close> returns its \<open>response\<close> as it is, and that call is the only one the
  request makes: no registry lookup, no search, no script run and no second call of the
  model are recorded, and the interpreter state is the one before the request.
\<close>

theorem direct_response_is_final:
  assumes "chat_history q = Some history"
    and "aask_req role (Inputs (user_profile q) history (question q)) = Inr (DirectResponse response)"
  shows "respond_to_user role asimilarity_search docs_store_dict resource_items q w =
           (Inr response,
            w\<lparr>calls := calls w @ [AaskCall (Inputs (user_profile q) history (question q))]\<rparr>)"
  using assms by (simp add: respond_to_user_def record_call_def Let_def)

theorem direct_response_is_final_witness:
  "respond_to_user (canned_role (DirectResponse ''4'')) stored_search two_channels PyNone
     \<lparr>question = ''What is 2+2?'', chat_history = Some [], user_profile = None,
      channel_id = None\<rparr> idle =
   (Inr ''4'',
    idle\<lparr>calls := [AaskCall (Inputs None [] ''What is 2+2?'')]\<rparr>)"
proof -
  let ?q = "\<lparr>question = ''What is 2+2?'', chat_history = Some [], user_profile = None,
      channel_id = None\<rparr>"
  have h1: "chat_history ?q = Some []" by simp
  have h2: "aask_req (canned_role (DirectResponse ''4''))
              (Inputs (user_profile ?q) [] (question ?q)) = Inr (DirectResponse ''4'')"
    by (simp add: canned_role_def)
  from direct_response_is_final [OF h1 h2, of stored_search two_channels PyNone idle]
  show ?thesis by (simp add: idle_def)
qed

text \<open>
  C4, as the code has it. When the first call answers with a \<open>DocumentRetrievalInput\<close>,
  the channel is \<open>channel_id or database_id\<close>: the \<open>channel_id\<close> of the question when it
  is a string that is not empty, the \<open>database_id\<close> of the answer when \<open>channel_id\<close> is
  \<open>None\<close> or the empty string. The registry lookup is made with that channel, and the
  search, with \<open>k = 3\<close>, on the store found there; every document found is passed on.
\<close>

theorem retrieval_channel_selection:
  assumes "chat_history q = Some history"
    and "aask_req role (Inputs (user_profile q) history (question q)) =
           Inr (DocumentRetrievalInput qry rq ui database_id)"
    and "selected = (case channel_id q of
                       None \<Rightarrow> database_id
                     | Some c \<Rightarrow> if c = [] then database_id else c)"
  shows "calls (snd (respond_to_user role asimilarity_search docs_store_dict resource_items q w)) =
           calls w @
           [AaskCall (Inputs (user_profile q) history (question q)), RegistryLookup selected] @
           (case map_of docs_store_dict selected of
              None \<Rightarrow> []
            | Some docs_store \<Rightarrow>
                SearchCall docs_store qry 3 #
                (case asimilarity_search docs_store qry 3 of
                   Inl e \<Rightarrow> []
                 | Inr docs \<Rightarrow>
                     [AaskCall (DocumentSearchInput rq (map page_content docs) ui)]))"
  using assms
  by (simp add: respond_to_user_def record_call_def py_or_def Let_def
      split: option.splits sum.splits)

theorem retrieval_channel_selection_witness:
  "calls (snd (respond_to_user
                 (canned_role (DocumentRetrievalInput ''segment'' ''how to segment'' ''lulu'' ''bioimage.io''))
                 stored_search two_channels PyNone
                 \<lparr>question = ''How can I segment?'', chat_history = Some [], user_profile = None,
                  channel_id = Some ''scikit-image''\<rparr> idle)) =
     [AaskCall (Inputs None [] ''How can I segment?''),
      RegistryLookup ''scikit-image'',
      SearchCall (one_doc_store ''scikit-image'') ''segment'' 3,
      AaskCall (DocumentSearchInput ''how to segment'' [''About scikit-image''] ''lulu'')]"
proof -
  let ?q = "\<lparr>question = ''How can I segment?'', chat_history = Some [], user_profile = None,
                  channel_id = Some ''scikit-image''\<rparr>"
  let ?r = "canned_role (DocumentRetrievalInput ''segment'' ''how to segment'' ''lulu'' ''bioimage.io'')"
  have h1: "chat_history ?q = Some []" by simp
  have h2: "aask_req ?r (Inputs (user_profile ?q) [] (question ?q)) =
      Inr (DocumentRetrievalInput ''segment'' ''how to segment'' ''lulu'' ''bioimage.io'')"
    by (simp add: canned_role_def)
  have h3: "''scikit-image'' = (case channel_id ?q of None \<Rightarrow> ''bioimage.io''
                     | Some c \<Rightarrow> if c = [] then ''bioimage.io'' else c)"
    by simp
  from retrieval_channel_selection [OF h1 h2 h3, of stored_search two_channels PyNone idle]
  show ?thesis
    by (simp add: idle_def two_channels_def stored_search_def one_doc_store_def)
qed

text \<open>
  A request against C4 as it is worded: its \<open>channel_id\<close> is set, to the empty string,
  and the lookup and the search are made with the \<open>database_id\<close> of the answer.
\<close>

theorem empty_channel_id_counterexample:
  "calls (snd (respond_to_user
                 (canned_role (DocumentRetrievalInput ''segment'' ''how to segment'' ''lulu'' ''bioimage.io''))
                 stored_search two_channels PyNone
                 \<lparr>question = ''How can I segment?'', chat_history = Some [], user_profile = None,
                  channel_id = Some []\<rparr> idle)) =
     [AaskCall (Inputs None [] ''How can I segment?''),
      RegistryLookup ''bioimage.io'',
      SearchCall (one_doc_store ''bioimage.io'') ''segment'' 3,
      AaskCall (DocumentSearchInput ''how to segment'' [''About bioimage.io''] ''lulu'')]"
  by (simp add: respond_to_user_def record_call_def py_or_def canned_role_def idle_def
      two_channels_def stored_search_def one_doc_store_def)


section \<open>Properties of the service\<close>

text \<open>
  C8. \<open>chat\<close> declares \<open>user_profile=None\<close>, and \<open>QuestionWithHistory\<close> declares the
  profile optional, yet \<open>chat\<close> passes the argument to \<open>UserProfile.parse_obj\<close> as it
  comes: whenever the channel is left out or names a collection, a call without a
  profile ends with a \<open>ValidationError\<close>, before the role is asked anything.
\<close>

theorem chat_fails_without_profile:
  assumes "lookup_channel (channel_id_by_name manifest_collections) channel = Inr cid"
  shows "chat customer_service asimilarity_search docs_store_dict resource_items
           manifest_collections text history None channel w =
         (Inl (PyExc ValidationError ''UserProfile expected dict not NoneType''), w)"
  using assms by (simp add: chat_def parse_obj_def)

theorem chat_fails_without_profile_witness:
  "lookup_channel (channel_id_by_name bioimage_manifest) (Some ''scikit-image'') =
     Inr (Some ''scikit-image'') \<and>
   chat (canned_role (DirectResponse ''4'')) stored_search two_channels PyNone bioimage_manifest
     ''What is 2+2?'' (Some []) None (Some ''scikit-image'') idle =
   (Inl (PyExc ValidationError ''UserProfile expected dict not NoneType''), idle)"
proof -
  have h: "lookup_channel (channel_id_by_name bioimage_manifest) (Some ''scikit-image'') =
     Inr (Some ''scikit-image'')"
    by (simp add: lookup_channel_def channel_id_by_name_def bioimage_manifest_def)
  from chat_fails_without_profile [OF h] h show ?thesis by simp
qed

text \<open>A channel name that is not in the manifest: the assertion lists the names.\<close>

lemma chat_unknown_channel:
  assumes "c \<noteq> []" and "map_of (channel_id_by_name manifest_collections) c = None"
  shows "chat customer_service asimilarity_search docs_store_dict resource_items
           manifest_collections text history profile (Some c) w =
         (Inl (PyExc AssertionError
                (''Channel '' @ c @ '' is not found, available channels are '' @
                 str_list (map fst (channel_id_by_name manifest_collections)))), w)"
  using assms by (simp add: chat_def lookup_channel_def)

section \<open>Properties of the documentation extension\<close>

lemma map_of_fold_update:
  "map_of (fold (\<lambda>x d. AList.update (f x) (g x) d) xs d0) k \<noteq> None \<longleftrightarrow>
     k \<in> f ` set xs \<or> map_of d0 k \<noteq> None"
  by (induction xs arbitrary: d0) (auto simp: update_conv')

text \<open>
  C10. \<open>run_extension\<close> reads the first three documents after the search, whatever the
  search found: for a channel of the registry and of the manifest, a search that comes
  back with fewer than three results ends \<open>run_extension\<close> with an \<open>IndexError\<close>, and the
  documents found are not returned.
\<close>

theorem run_extension_short_result_raises:
  assumes "map_of docs_store_dict channel = Some docs_store"
    and "channel \<in> c_id ` set collections"
    and "search docs_store (query req) 3 = Inr results"
    and "length results < 3"
  shows "run_extension search collections docs_store_dict channel req =
           Inl (PyExc IndexError ''list index out of range'')"
proof -
  from assms(2) map_of_fold_update [of c_id "\<lambda>c. c" collections "[]" channel]
  obtain info where
    "map_of (fold (\<lambda>collection d. AList.update (c_id collection) collection d) collections [])
       channel = Some info"
    by auto
  with assms(1,3,4) show ?thesis
    by (auto simp: run_extension_def py_index_def Let_def)
qed


theorem run_extension_short_result_raises_witness:
  "map_of two_channels ''scikit-image'' = Some (one_doc_store ''scikit-image'') \<and>
   ''scikit-image'' \<in> c_id ` set bioimage_manifest \<and>
   short_search (one_doc_store ''scikit-image'') ''napari'' 3 =
     Inr [(\<lparr>page_content = ''Napari is a viewer'', metadata = []\<rparr>, 0.9),
          (\<lparr>page_content = ''Install with pip'', metadata = []\<rparr>, 0.5)] \<and>
   run_extension short_search bioimage_manifest two_channels ''scikit-image''
     \<lparr>request = ''viewer'', preliminary_response = [], query = ''napari'', user_info = []\<rparr> =
     Inl (PyExc IndexError ''list index out of range'')"
proof -
  let ?req = "\<lparr>request = ''viewer'', preliminary_response = [], query = ''napari'', user_info = []\<rparr>"
  let ?rs = "[(\<lparr>page_content = ''Napari is a viewer'', metadata = []\<rparr>, 0.9::real),
          (\<lparr>page_content = ''Install with pip'', metadata = []\<rparr>, 0.5)]"
  have h1: "map_of two_channels ''scikit-image'' = Some (one_doc_store ''scikit-image'')"
    by (simp add: two_channels_def)
  have h2: "''scikit-image'' \<in> c_id ` set bioimage_manifest"
    by (simp add: bioimage_manifest_def)
  have h3: "short_search (one_doc_store ''scikit-image'') (query ?req) 3 = Inr ?rs"
    by (simp add: short_search_def)
  have h4: "length ?rs < 3" by simp
  from run_extension_short_result_raises
         [where search = short_search and req = ?req and results = ?rs, OF h1 h2 h3 h4]
       h1 h2 h3
  show ?thesis by simp
qed



section \<open>Properties of the registry\<close>

lemma load_all_Inr:
  assumes "load_all load_local db_path channels d = Inr d'"
  shows "(\<forall>c \<in> set channels. \<exists>st. load_local c db_path = Inr st \<and> map_of d' c = Some st) \<and>
         (\<forall>c. c \<notin> set channels \<longrightarrow> map_of d' c = map_of d c) \<and>
         fst ` set d' = set channels \<union> fst ` set d \<and>
         (distinct (map fst d) \<longrightarrow> distinct (map fst d'))"
  using assms
proof (induction channels arbitrary: d)
  case Nil
  then show ?case by simp
next
  case (Cons channel channels)
  from Cons.prems obtain st where
    ld: "load_local channel db_path = Inr st" and
    rest: "load_all load_local db_path channels (AList.update channel st d) = Inr d'"
    by (auto simp: load_docs_store_def split: sum.splits)
  from Cons.IH [OF rest] have
    ih1: "\<forall>c \<in> set channels. \<exists>st. load_local c db_path = Inr st \<and> map_of d' c = Some st" and
    ih2: "\<forall>c. c \<notin> set channels \<longrightarrow> map_of d' c = map_of (AList.update channel st d) c" and
    ih3: "fst ` set d' = set channels \<union> fst ` set (AList.update channel st d)" and
    ih4: "distinct (map fst (AList.update channel st d)) \<longrightarrow> distinct (map fst d')"
    by blast+
  have "\<exists>st. load_local channel db_path = Inr st \<and> map_of d' channel = Some st"
  proof (cases "channel \<in> set channels")
    case True
    with ih1 show ?thesis by blast
  next
    case False
    with ih2 ld show ?thesis by (simp add: update_conv')
  qed
  moreover have "\<forall>c. c \<notin> set (channel # channels) \<longrightarrow> map_of d' c = map_of d c"
    using ih2 by (simp add: update_conv')
  moreover have "fst ` set d' = set (channel # channels) \<union> fst ` set d"
    using ih3 by (auto simp: dom_update)
  moreover have "distinct (map fst d) \<longrightarrow> distinct (map fst d')"
    using ih4 by (simp add: distinct_update)
  ultimately show ?case using ih1 by simp
qed

lemma assert_not_empty_None:
  "assert_not_empty d = None \<Longrightarrow> (n, st) \<in> set d \<Longrightarrow> 0 < dict_len (docstore_dict st)"
  by (induction d) (auto split: if_splits)

lemma load_knowledge_base_Inr:
  assumes "load_knowledge_base load_local db_path manifest_collections = Inr docs_store_dict"
  shows "distinct (map fst docs_store_dict) \<and>
         fst ` set docs_store_dict = c_id ` set manifest_collections \<and>
         (\<forall>c \<in> set manifest_collections.
            \<exists>st. map_of docs_store_dict (c_id c) = Some st \<and>
                 load_local (c_id c) db_path = Inr st \<and>
                 0 < dict_len (docstore_dict st))"
proof -
  from assms have
    la: "load_all load_local db_path (map c_id manifest_collections) [] = Inr docs_store_dict"
    and ok: "assert_not_empty docs_store_dict = None"
    by (auto simp: load_knowledge_base_def Let_def split: sum.splits option.splits)
  note la' = load_all_Inr [OF la]
  have l1: "\<forall>c \<in> set (map c_id manifest_collections).
           \<exists>st. load_local c db_path = Inr st \<and> map_of docs_store_dict c = Some st"
    using la' by blast
  have l3: "fst ` set docs_store_dict = c_id ` set manifest_collections"
    using la' by simp
  have l4: "distinct (map fst docs_store_dict)"
    using la' by simp
  have "\<exists>st. map_of docs_store_dict (c_id c) = Some st \<and> load_local (c_id c) db_path = Inr st \<and>
             0 < dict_len (docstore_dict st)"
    if "c \<in> set manifest_collections" for c :: collection
  proof -
    from that l1 obtain st where
      st: "load_local (c_id c) db_path = Inr st" "map_of docs_store_dict (c_id c) = Some st"
      by auto
    from st(2) have "(c_id c, st) \<in> set docs_store_dict" by (rule map_of_SomeD)
    from assert_not_empty_None [OF ok this] st show ?thesis by simp
  qed
  with l3 l4 show ?thesis by blast
qed

text \<open>
  C7. When \<open>load_knowledge_base\<close> returns a registry, its keys are the collection ids of
  the manifest, each once, and every collection id is mapped to the store loaded for it,
  which has at least one document. When the store loaded for some collection of the
  manifest has no document, \<open>load_knowledge_base\<close> raises, and \<open>start_server\<close> registers
  no service.
\<close>

theorem registry_build_fails_on_empty_store:
  "(load_knowledge_base load_local db_path manifest_collections = Inr docs_store_dict \<longrightarrow>
      distinct (map fst docs_store_dict) \<and>
      fst ` set docs_store_dict = c_id ` set manifest_collections \<and>
      (\<forall>c \<in> set manifest_collections.
         \<exists>st. map_of docs_store_dict (c_id c) = Some st \<and>
              load_local (c_id c) db_path = Inr st \<and>
              0 < dict_len (docstore_dict st))) \<and>
   ((\<exists>c \<in> set manifest_collections.
       \<exists>st. load_local (c_id c) db_path = Inr st \<and> dict_len (docstore_dict st) = 0) \<longrightarrow>
      (\<exists>e. load_knowledge_base load_local db_path manifest_collections = Inl e) \<and>
      (\<forall>service. RegisterService service \<notin>
         set (snd (start_server login connect_to_server register_service load_local db_path
                     manifest_collections build_role))))"
proof (intro conjI impI)
  assume "load_knowledge_base load_local db_path manifest_collections = Inr docs_store_dict"
  from load_knowledge_base_Inr [OF this]
  show "distinct (map fst docs_store_dict)"
    and "fst ` set docs_store_dict = c_id ` set manifest_collections"
    and "\<forall>c \<in> set manifest_collections.
         \<exists>st. map_of docs_store_dict (c_id c) = Some st \<and>
              load_local (c_id c) db_path = Inr st \<and>
              0 < dict_len (docstore_dict st)"
    by blast+
next
  assume e: "\<exists>c \<in> set manifest_collections.
       \<exists>st. load_local (c_id c) db_path = Inr st \<and> dict_len (docstore_dict st) = 0"
  show f: "\<exists>e. load_knowledge_base load_local db_path manifest_collections = Inl e"
  proof (cases "load_knowledge_base load_local db_path manifest_collections")
    case (Inl a)
    then show ?thesis by simp
  next
    case (Inr d)
    from load_knowledge_base_Inr [OF Inr] e show ?thesis by fastforce
  qed
  then show "\<forall>service. RegisterService service \<notin>
         set (snd (start_server login connect_to_server register_service load_local db_path
                     manifest_collections build_role))"
    by (auto simp: start_server_def create_customer_service_def split: sum.splits option.splits)
qed

theorem registry_build_fails_on_empty_store_witness:
  "load_knowledge_base stocked_loader ''knowledge-base'' bioimage_manifest = Inr two_channels \<and>
   distinct (map fst two_channels) \<and>
   fst ` set two_channels = c_id ` set bioimage_manifest \<and>
   load_knowledge_base hollow_loader ''knowledge-base'' bioimage_manifest =
     Inl (PyExc AssertionError ''Please make sure the docs store scikit-image is not empty.'') \<and>
   (\<forall>service. RegisterService service \<notin>
      set (snd (start_server (Inr ''token'') (\<lambda>token. Inr ''server'') (\<lambda>server service. None)
                  hollow_loader ''knowledge-base'' bioimage_manifest (\<lambda>d. Inr ()))))"
proof -
  have ok: "load_knowledge_base stocked_loader ''knowledge-base'' bioimage_manifest =
      Inr two_channels"
    by (simp add: load_knowledge_base_def load_docs_store_def stocked_loader_def
        bioimage_manifest_def two_channels_def one_doc_store_def dict_len_def)
  have bad: "load_knowledge_base hollow_loader ''knowledge-base'' bioimage_manifest =
      Inl (PyExc AssertionError ''Please make sure the docs store scikit-image is not empty.'')"
    by (simp add: load_knowledge_base_def load_docs_store_def hollow_loader_def
        bioimage_manifest_def one_doc_store_def dict_len_def)
  have hollow: "\<exists>c \<in> set bioimage_manifest.
       \<exists>st. hollow_loader (c_id c) ''knowledge-base'' = Inr st \<and>
            dict_len (docstore_dict st) = 0"
    by (simp add: bioimage_manifest_def hollow_loader_def dict_len_def)
  from registry_build_fails_on_empty_store
         [of stocked_loader "''knowledge-base''" bioimage_manifest two_channels]
       ok
  have a: "distinct (map fst two_channels)"
    "fst ` set two_channels = c_id ` set bioimage_manifest"
    by blast+
  from registry_build_fails_on_empty_store
         [of hollow_loader "''knowledge-base''" bioimage_manifest two_channels
             "Inr ''token''" "\<lambda>token. Inr ''server''" "\<lambda>server service. None" "\<lambda>d. Inr ()"]
       hollow
  have b: "\<forall>service. RegisterService service \<notin>
      set (snd (start_server (Inr ''token'') (\<lambda>token. Inr ''server'') (\<lambda>server service. None)
                  hollow_loader ''knowledge-base'' bioimage_manifest (\<lambda>d. Inr ())))"
    by blast
  from ok bad a b show ?thesis by blast
qed

end
